theory Spec2Isabelle
  imports Main
begin

section \<open>Time formatting (popup/lib/time)\<close>


definition digit_char :: "nat \<Rightarrow> char" where
  "digit_char d = char_of (48 + d)"

text \<open>\<open>Number.prototype.toString\<close> on an integer: decimal digits, a minus sign when negative.\<close>

fun nat_toString :: "nat \<Rightarrow> string" where
  "nat_toString n =
     (if n < 10 then [digit_char n] else nat_toString (n div 10) @ [digit_char (n mod 10)])"

declare nat_toString.simps [simp del]







section \<open>Data model (popup/lib/types)\<close>

datatype Theme = light | dark | system

datatype PropertyType = status | checkbox

datatype FilterValue = StringValue string | BoolValue bool

record TaskFilter =
  filter_id :: string
  propertyId :: string
  propertyName :: string
  propertyType :: PropertyType
  filter_value :: FilterValue

record Settings =
  apiKey :: string
  tasksDataSourceId :: string
  tasksDataSourceName :: string
  statusPropertyId :: string
  statusPropertyName :: string
  sessionsPropertyId :: string
  sessionsPropertyName :: string
  workSessionsDataSourceId :: string
  workSessionsDataSourceName :: string
  startDatePropertyId :: string
  startDatePropertyName :: string
  endDatePropertyId :: string
  endDatePropertyName :: string
  theme :: Theme
  filters :: "TaskFilter list"

text \<open>
  The fields typed \<open>string | null\<close> and \<open>number | null\<close> are options: \<open>None\<close> is
  \<open>null\<close>. Timestamps and durations are milliseconds.
\<close>

record TimerState =
  isRunning :: bool
  isPaused :: bool
  taskId :: "string option"
  taskTitle :: string
  currentSessionId :: "string option"
  sessionStartTime :: "int option"
  previousTotal :: int

definition DEFAULT_TIMER_STATE :: TimerState where
  "DEFAULT_TIMER_STATE =
     \<lparr>isRunning = False, isPaused = False, taskId = None, taskTitle = [],
      currentSessionId = None, sessionStartTime = None, previousTotal = 0\<rparr>"

record StartTimerPayload =
  payload_taskId :: string
  payload_taskTitle :: string
  payload_previousTotal :: int

datatype message =
    START_TIMER StartTimerPayload
  | PAUSE_TIMER
  | RESUME_TIMER
  | STOP_TIMER
  | GET_STATE
  | OTHER_MESSAGE string

text \<open>
  The three phases are derived from the two flags in the order in which the source tests
  them (\<open>updateBadge\<close>): running first, then paused, otherwise idle.
\<close>

datatype phase = idle | running | paused

definition phase_of :: "TimerState \<Rightarrow> phase" where
  "phase_of state = (if isRunning state then running else if isPaused state then paused else idle)"

text \<open>
  JavaScript truthiness, as used by the guards of the handlers: \<open>null\<close> and the empty
  string are falsy, \<open>null\<close> and \<open>0\<close> are falsy.
\<close>

definition truthy_string :: "string option \<Rightarrow> bool" where
  "truthy_string v = (case v of None \<Rightarrow> False | Some s \<Rightarrow> s \<noteq> [])"

definition truthy_number :: "int option \<Rightarrow> bool" where
  "truthy_number v = (case v of None \<Rightarrow> False | Some n \<Rightarrow> n \<noteq> 0)"

section \<open>The environment of the service worker\<close>

text \<open>
  A thrown \<open>Error\<close> is a value carrying its message; a function that may throw returns
  \<open>error + 'a\<close>.
\<close>

datatype error = Error string

datatype http_method = GET | POST | PATCH

type_synonym request = "http_method \<times> string"

record DatabaseProperty =
  prop_id :: string
  prop_name :: string
  prop_type :: string
  prop_relation :: "string option"

record DatabasePropertyInfo =
  taskRelationName :: "string option"
  titlePropertyName :: "string option"

text \<open>
  What a successful write leaves in the remote store: one record per created session page,
  with the task it is related to, the session number of its title (when the title property
  was found) and whether its end date has been set. The date values are not modelled.
\<close>

record RemoteSession =
  session_id :: string
  session_task :: string
  session_number :: "nat option"
  session_ended :: bool

datatype BadgeText = NoBadge | PlayGlyph | PauseGlyph

text \<open>
  Everything a handler reads or writes besides its arguments: the two storage slots of
  \<open>chrome.storage.local\<close>, the action badge, the tick alarm, the requests sent to the
  remote API so far (in order) and the session records of the remote store.
\<close>

record World =
  stored_settings :: "Settings option"
  stored_timer_state :: "TimerState option"
  badge_color :: string
  badge_text :: BadgeText
  alarm :: bool
  requests :: "request list"
  remote_sessions :: "RemoteSession list"

text \<open>
  What the outside answers during one handler invocation: the clock (\<open>Date.now()\<close>) and
  the outcome of each kind of request to the remote API. \<open>Inl\<close> is a network failure or a
  non-success status, which \<open>notionRequest\<close> turns into a thrown \<open>Error\<close>. A failed
  request is taken to have had no effect on the remote store. The page response is reduced to
  the length of the relation stored under the sessions property, if that property exists.
\<close>

record Env =
  now :: int
  database_response :: "error + DatabaseProperty list"
  page_response :: "error + nat option"
  create_response :: "error + string"
  patch_response :: "error + unit"

section \<open>Storage, badge and remote client (background/service-worker)\<close>

definition notionRequest :: "http_method \<Rightarrow> string \<Rightarrow> error + 'a \<Rightarrow> World \<Rightarrow> (error + 'a) \<times> World" where
  "notionRequest method endpoint response w =
     (response, w\<lparr>requests := requests w @ [(method, endpoint)]\<rparr>)"

definition getSettings :: "World \<Rightarrow> Settings option" where
  "getSettings w = stored_settings w"

definition getTimerState :: "World \<Rightarrow> TimerState" where
  "getTimerState w = (case stored_timer_state w of None \<Rightarrow> DEFAULT_TIMER_STATE | Some state \<Rightarrow> state)"

definition saveTimerState :: "TimerState \<Rightarrow> World \<Rightarrow> World" where
  "saveTimerState state w = w\<lparr>stored_timer_state := Some state\<rparr>"

definition updateBadge :: "TimerState \<Rightarrow> World \<Rightarrow> World" where
  "updateBadge state w =
     (if isRunning state then w\<lparr>badge_color := ''#2ecc71'', badge_text := PlayGlyph\<rparr>
      else if isPaused state then w\<lparr>badge_color := ''#f39c12'', badge_text := PauseGlyph\<rparr>
      else w\<lparr>badge_text := NoBadge\<rparr>)"

definition name_or_null :: "DatabaseProperty option \<Rightarrow> string option" where
  "name_or_null prop =
     (case prop of None \<Rightarrow> None
      | Some p \<Rightarrow> if prop_name p = [] then None else Some (prop_name p))"

definition getWorkSessionsDbInfo ::
  "string \<Rightarrow> string \<Rightarrow> Env \<Rightarrow> World \<Rightarrow> (error + DatabasePropertyInfo) \<times> World" where
  "getWorkSessionsDbInfo workSessionsDbId tasksDbId env w =
     (case notionRequest GET (''/databases/'' @ workSessionsDbId) (database_response env) w of
        (Inl e, w1) \<Rightarrow> (Inl e, w1)
      | (Inr properties, w1) \<Rightarrow>
          (Inr \<lparr>taskRelationName = name_or_null
                   (find (\<lambda>prop. prop_type prop = ''relation''
                                  \<and> prop_relation prop = Some tasksDbId) properties),
                 titlePropertyName = name_or_null
                   (find (\<lambda>prop. prop_type prop = ''title'') properties)\<rparr>, w1))"

definition getExistingSessionCount :: "string \<Rightarrow> Env \<Rightarrow> World \<Rightarrow> nat \<times> World" where
  "getExistingSessionCount task env w =
     (case notionRequest GET (''/pages/'' @ task) (page_response env) w of
        (Inl e, w1) \<Rightarrow> (0, w1)
      | (Inr None, w1) \<Rightarrow> (0, w1)
      | (Inr (Some n), w1) \<Rightarrow> (n, w1))"

definition createWorkSession ::
  "Settings \<Rightarrow> string \<Rightarrow> string \<Rightarrow> Env \<Rightarrow> World \<Rightarrow> (error + string) \<times> World" where
  "createWorkSession settings task title env w =
     (case getWorkSessionsDbInfo (workSessionsDataSourceId settings)
             (tasksDataSourceId settings) env w of
        (Inl e, w1) \<Rightarrow> (Inl e, w1)
      | (Inr dbInfo, w1) \<Rightarrow>
          (if \<not> truthy_string (taskRelationName dbInfo)
           then (Inl (Error ''Could not find task relation property''), w1)
           else
             (case getExistingSessionCount task env w1 of
                (existingCount, w2) \<Rightarrow>
                  (case notionRequest POST ''/pages'' (create_response env) w2 of
                     (Inl e, w3) \<Rightarrow> (Inl e, w3)
                   | (Inr new_id, w3) \<Rightarrow>
                       (Inr new_id,
                        w3\<lparr>remote_sessions := remote_sessions w3 @
                             [\<lparr>session_id = new_id, session_task = task,
                               session_number =
                                 (if truthy_string (titlePropertyName dbInfo)
                                  then Some (existingCount + 1) else None),
                               session_ended = False\<rparr>]\<rparr>)))))"

text \<open>Setting the end date of the page with the given id.\<close>

definition close_record :: "string \<Rightarrow> RemoteSession \<Rightarrow> RemoteSession" where
  "close_record sessionId r =
     (if session_id r = sessionId then r\<lparr>session_ended := True\<rparr> else r)"

definition endWorkSession :: "Settings \<Rightarrow> string \<Rightarrow> Env \<Rightarrow> World \<Rightarrow> (error + unit) \<times> World" where
  "endWorkSession settings sessionId env w =
     (case notionRequest PATCH (''/pages/'' @ sessionId) (patch_response env) w of
        (Inl e, w1) \<Rightarrow> (Inl e, w1)
      | (Inr u, w1) \<Rightarrow>
          (Inr (),
           w1\<lparr>remote_sessions :=
                 map (close_record sessionId) (remote_sessions w1)\<rparr>))"

section \<open>The transition handlers\<close>

definition handleStartTimer ::
  "StartTimerPayload \<Rightarrow> Env \<Rightarrow> World \<Rightarrow> (error + TimerState) \<times> World" where
  "handleStartTimer payload env w =
     (case getSettings w of
        None \<Rightarrow> (Inl (Error ''Settings not configured''), w)
      | Some settings \<Rightarrow>
          (case createWorkSession settings (payload_taskId payload)
                  (payload_taskTitle payload) env w of
             (Inl e, w1) \<Rightarrow> (Inl e, w1)
           | (Inr sessionId, w1) \<Rightarrow>
               (let state = \<lparr>isRunning = True, isPaused = False,
                              taskId = Some (payload_taskId payload),
                              taskTitle = payload_taskTitle payload,
                              currentSessionId = Some sessionId,
                              sessionStartTime = Some (now env),
                              previousTotal = payload_previousTotal payload\<rparr>
                in (Inr state, (updateBadge state (saveTimerState state w1))\<lparr>alarm := True\<rparr>))))"

definition handlePauseTimer :: "Env \<Rightarrow> World \<Rightarrow> (error + TimerState) \<times> World" where
  "handlePauseTimer env w =
     (let state = getTimerState w in
      case getSettings w of
        None \<Rightarrow> (Inr state, w)
      | Some settings \<Rightarrow>
          (if \<not> isRunning state \<or> \<not> truthy_string (currentSessionId state)
           then (Inr state, w)
           else
             (case endWorkSession settings (the (currentSessionId state)) env w of
                (Inl e, w1) \<Rightarrow> (Inl e, w1)
              | (Inr u, w1) \<Rightarrow>
                  (let sessionElapsed =
                         (if truthy_number (sessionStartTime state)
                          then now env - the (sessionStartTime state) else 0);
                       newState = state\<lparr>isRunning := False, isPaused := True,
                                         currentSessionId := None, sessionStartTime := None,
                                         previousTotal := previousTotal state + sessionElapsed\<rparr>
                   in (Inr newState,
                       (updateBadge newState (saveTimerState newState w1))\<lparr>alarm := False\<rparr>)))))"

definition handleResumeTimer :: "Env \<Rightarrow> World \<Rightarrow> (error + TimerState) \<times> World" where
  "handleResumeTimer env w =
     (let state = getTimerState w in
      case getSettings w of
        None \<Rightarrow> (Inr state, w)
      | Some settings \<Rightarrow>
          (if \<not> isPaused state \<or> \<not> truthy_string (taskId state)
           then (Inr state, w)
           else
             (case createWorkSession settings (the (taskId state))
                     (if taskTitle state = [] then ''Untitled'' else taskTitle state) env w of
                (Inl e, w1) \<Rightarrow> (Inl e, w1)
              | (Inr sessionId, w1) \<Rightarrow>
                  (let newState = state\<lparr>isRunning := True, isPaused := False,
                                         currentSessionId := Some sessionId,
                                         sessionStartTime := Some (now env)\<rparr>
                   in (Inr newState,
                       (updateBadge newState (saveTimerState newState w1))\<lparr>alarm := True\<rparr>)))))"

definition handleStopTimer :: "Env \<Rightarrow> World \<Rightarrow> (error + TimerState) \<times> World" where
  "handleStopTimer env w =
     (let state = getTimerState w in
      case getSettings w of
        None \<Rightarrow>
          (Inr DEFAULT_TIMER_STATE,
           updateBadge DEFAULT_TIMER_STATE (saveTimerState DEFAULT_TIMER_STATE w))
      | Some settings \<Rightarrow>
          (case (if isRunning state \<and> truthy_string (currentSessionId state)
                 then endWorkSession settings (the (currentSessionId state)) env w
                 else (Inr (), w)) of
             (Inl e, w1) \<Rightarrow> (Inl e, w1)
           | (Inr u, w1) \<Rightarrow>
               (Inr DEFAULT_TIMER_STATE,
                (updateBadge DEFAULT_TIMER_STATE
                   (saveTimerState DEFAULT_TIMER_STATE w1))\<lparr>alarm := False\<rparr>)))"

definition handleGetState :: "World \<Rightarrow> TimerState" where
  "handleGetState w = getTimerState w"

section \<open>The message listener and the client proxy\<close>

text \<open>
  A response is a timer state (the four transitions), an object with a \<open>timerState\<close>
  field (get-state) or an object with an \<open>error\<close> field.
\<close>

datatype response =
    StateResponse TimerState
  | GetStateResponse TimerState
  | ErrorResponse string

text \<open>The \<open>switch\<close> inside the \<open>try\<close> block of the listener.\<close>

fun dispatch :: "message \<Rightarrow> Env \<Rightarrow> World \<Rightarrow> (error + response) \<times> World" where
  "dispatch (START_TIMER payload) env w =
     (case handleStartTimer payload env w of (r, w1) \<Rightarrow> (map_sum id StateResponse r, w1))"
| "dispatch PAUSE_TIMER env w =
     (case handlePauseTimer env w of (r, w1) \<Rightarrow> (map_sum id StateResponse r, w1))"
| "dispatch RESUME_TIMER env w =
     (case handleResumeTimer env w of (r, w1) \<Rightarrow> (map_sum id StateResponse r, w1))"
| "dispatch STOP_TIMER env w =
     (case handleStopTimer env w of (r, w1) \<Rightarrow> (map_sum id StateResponse r, w1))"
| "dispatch GET_STATE env w = (Inr (GetStateResponse (handleGetState w)), w)"
| "dispatch (OTHER_MESSAGE kind) env w = (Inr (ErrorResponse ''Unknown message type''), w)"

text \<open>The listener: whatever is thrown inside is caught and answered as an error object.\<close>

definition handleMessage :: "message \<Rightarrow> Env \<Rightarrow> World \<Rightarrow> response \<times> World" where
  "handleMessage msg env w =
     (case dispatch msg env w of
        (Inl (Error text), w1) \<Rightarrow> (ErrorResponse text, w1)
      | (Inr r, w1) \<Rightarrow> (r, w1))"

text \<open>
  \<open>sendMessage\<close> of the popup (popup/lib/stores): the promise is rejected when the
  transport reports \<open>chrome.runtime.lastError\<close> and is resolved with the response otherwise.
\<close>

datatype 'a promise = Resolved 'a | Rejected string

definition sendMessage :: "string option \<Rightarrow> response \<Rightarrow> response promise" where
  "sendMessage lastError response =
     (case lastError of Some err \<Rightarrow> Rejected err | None \<Rightarrow> Resolved response)"

section \<open>Sequences of requests\<close>

text \<open>Requests are handled one at a time, each to completion, in arrival order.\<close>

fun run :: "World \<Rightarrow> (message \<times> Env) list \<Rightarrow> World" where
  "run w [] = w"
| "run w ((msg, env) # rest) = run (snd (handleMessage msg env w)) rest"

definition open_sessions :: "string \<Rightarrow> World \<Rightarrow> RemoteSession list" where
  "open_sessions task w =
     filter (\<lambda>r. session_task r = task \<and> \<not> session_ended r) (remote_sessions w)"


section \<open>Invariants of the persisted state\<close>

text \<open>The shape of every timer state the handlers store.\<close>

definition state_wf :: "TimerState \<Rightarrow> bool" where
  "state_wf state =
     (if isRunning state
      then \<not> isPaused state \<and> taskId state \<noteq> None
           \<and> currentSessionId state \<noteq> None \<and> sessionStartTime state \<noteq> None
      else currentSessionId state = None \<and> sessionStartTime state = None
           \<and> (isPaused state = (taskId state \<noteq> None)))"

text \<open>The session records of the remote store that have no end date, for any task.\<close>

definition open_records :: "World \<Rightarrow> RemoteSession list" where
  "open_records w = filter (\<lambda>r. \<not> session_ended r) (remote_sessions w)"


section \<open>Concrete inputs\<close>

definition example_settings :: Settings where
  "example_settings =
     \<lparr>apiKey = ''secret'', tasksDataSourceId = ''tasks-db'', tasksDataSourceName = ''Tasks'',
      statusPropertyId = ''p1'', statusPropertyName = ''Status'',
      sessionsPropertyId = ''p2'', sessionsPropertyName = ''Sessions'',
      workSessionsDataSourceId = ''sessions-db'', workSessionsDataSourceName = ''Sessions'',
      startDatePropertyId = ''p3'', startDatePropertyName = ''Start'',
      endDatePropertyId = ''p4'', endDatePropertyName = ''End'',
      theme = system, filters = []\<rparr>"

definition fresh_world :: "Settings option \<Rightarrow> World" where
  "fresh_world settings =
     \<lparr>stored_settings = settings, stored_timer_state = None, badge_color = [],
      badge_text = NoBadge, alarm = False, requests = [], remote_sessions = []\<rparr>"

definition sessions_db_properties :: "DatabaseProperty list" where
  "sessions_db_properties =
     [\<lparr>prop_id = ''a'', prop_name = ''Name'', prop_type = ''title'', prop_relation = None\<rparr>,
      \<lparr>prop_id = ''b'', prop_name = ''Task'', prop_type = ''relation'',
       prop_relation = Some ''tasks-db''\<rparr>]"

text \<open>An environment in which every request succeeds, at a given time and with a given new id.\<close>

definition ok_env :: "int \<Rightarrow> string \<Rightarrow> Env" where
  "ok_env t new_id =
     \<lparr>now = t, database_response = Inr sessions_db_properties, page_response = Inr (Some 0),
      create_response = Inr new_id, patch_response = Inr ()\<rparr>"

text \<open>An environment in which the create and close requests are refused.\<close>

definition failing_env :: "int \<Rightarrow> Env" where
  "failing_env t =
     \<lparr>now = t, database_response = Inr sessions_db_properties, page_response = Inr (Some 0),
      create_response = Inl (Error ''Notion API error: 500''),
      patch_response = Inl (Error ''Notion API error: 500'')\<rparr>"

definition task1 :: StartTimerPayload where
  "task1 = \<lparr>payload_taskId = ''T1'', payload_taskTitle = ''Write report'',
            payload_previousTotal = 0\<rparr>"

definition running_state :: "int \<Rightarrow> TimerState" where
  "running_state t0 =
     \<lparr>isRunning = True, isPaused = False, taskId = Some ''T1'', taskTitle = ''Write report'',
      currentSessionId = Some ''s1'', sessionStartTime = Some t0, previousTotal = 1000\<rparr>"

definition running_world :: "Settings option \<Rightarrow> int \<Rightarrow> World" where
  "running_world settings t0 =
     \<lparr>stored_settings = settings, stored_timer_state = Some (running_state t0),
      badge_color = ''#2ecc71'', badge_text = PlayGlyph, alarm = True, requests = [],
      remote_sessions = [\<lparr>session_id = ''s1'', session_task = ''T1'',
                           session_number = Some 1, session_ended = False\<rparr>]\<rparr>"

text \<open>Start at 1000, pause at 6000.\<close>

definition start_pause_events :: "(message \<times> Env) list" where
  "start_pause_events = [(START_TIMER task1, ok_env 1000 ''s1''), (PAUSE_TIMER, ok_env 6000 [])]"

text \<open>Start, pause, resume: the second session is open at the end.\<close>

definition start_pause_resume_events :: "(message \<times> Env) list" where
  "start_pause_resume_events =
     [(START_TIMER task1, ok_env 1000 ''s1''), (PAUSE_TIMER, ok_env 6000 ''s2''),
      (RESUME_TIMER, ok_env 7000 ''s2'')]"

text \<open>Two start requests for the same task, with no stop in between.\<close>

definition double_start_events :: "(message \<times> Env) list" where
  "double_start_events =
     [(START_TIMER task1, ok_env 1000 ''s1''), (START_TIMER task1, ok_env 2000 ''s2'')]"

text \<open>The world after start at 1000 and pause at 6000: paused, with the task kept.\<close>

definition paused_world :: World where
  "paused_world = run (fresh_world (Some example_settings)) start_pause_events"

section \<open>Properties of the time formatting\<close>






lemma nat_toString_nonempty: "nat_toString n \<noteq> []"
  by (subst nat_toString.simps) simp













section \<open>Properties of the remote client and of the handlers\<close>

lemma notionRequest_simps [simp]:
  "fst (notionRequest method endpoint response w) = response"
  "stored_settings (snd (notionRequest method endpoint response w)) = stored_settings w"
  "stored_timer_state (snd (notionRequest method endpoint response w)) = stored_timer_state w"
  "remote_sessions (snd (notionRequest method endpoint response w)) = remote_sessions w"
  by (simp_all add: notionRequest_def)

lemma getTimerState_cong:
  "stored_timer_state w1 = stored_timer_state w \<Longrightarrow> getTimerState w1 = getTimerState w"
  by (simp add: getTimerState_def)

lemma createWorkSession_cases:
  "(\<exists>e w1. createWorkSession settings task title env w = (Inl e, w1)
       \<and> stored_settings w1 = stored_settings w
       \<and> stored_timer_state w1 = stored_timer_state w
       \<and> remote_sessions w1 = remote_sessions w)
   \<or> (\<exists>new_id n w1. createWorkSession settings task title env w = (Inr new_id, w1)
       \<and> create_response env = Inr new_id
       \<and> stored_settings w1 = stored_settings w
       \<and> stored_timer_state w1 = stored_timer_state w
       \<and> remote_sessions w1 = remote_sessions w @
             [\<lparr>session_id = new_id, session_task = task,
               session_number = n, session_ended = False\<rparr>])"
  by (cases "database_response env"; cases "page_response env"; cases "create_response env")
     (auto simp add: createWorkSession_def getWorkSessionsDbInfo_def
        getExistingSessionCount_def notionRequest_def split: option.splits)

lemma createWorkSession_storage:
  "stored_settings (snd (createWorkSession settings task title env w)) = stored_settings w"
  "stored_timer_state (snd (createWorkSession settings task title env w)) = stored_timer_state w"
  using createWorkSession_cases[of settings task title env w] by auto

lemma createWorkSession_Inl:
  "fst (createWorkSession settings task title env w) = Inl e \<Longrightarrow>
   remote_sessions (snd (createWorkSession settings task title env w)) = remote_sessions w"
  using createWorkSession_cases[of settings task title env w] by auto

lemma createWorkSession_Inr:
  "fst (createWorkSession settings task title env w) = Inr new_id \<Longrightarrow>
   create_response env = Inr new_id \<and>
   (\<exists>n. remote_sessions (snd (createWorkSession settings task title env w)) =
      remote_sessions w @ [\<lparr>session_id = new_id, session_task = task,
                            session_number = n, session_ended = False\<rparr>])"
  using createWorkSession_cases[of settings task title env w] by auto

lemma endWorkSession_storage:
  "stored_settings (snd (endWorkSession settings sid env w)) = stored_settings w"
  "stored_timer_state (snd (endWorkSession settings sid env w)) = stored_timer_state w"
  by (cases "patch_response env"; simp add: endWorkSession_def notionRequest_def)+

lemma endWorkSession_Inl:
  "patch_response env = Inl e \<Longrightarrow>
   remote_sessions (snd (endWorkSession settings sid env w)) = remote_sessions w"
  by (simp add: endWorkSession_def notionRequest_def)

lemma endWorkSession_Inr:
  "patch_response env = Inr u \<Longrightarrow>
   remote_sessions (snd (endWorkSession settings sid env w)) =
     map (close_record sid) (remote_sessions w)"
  by (simp add: endWorkSession_def notionRequest_def)

lemma endWorkSession_fst: "fst (endWorkSession settings sid env w) = patch_response env"
  by (cases "patch_response env") (simp_all add: endWorkSession_def notionRequest_def)

lemma updateBadge_storage [simp]:
  "stored_settings (updateBadge state w) = stored_settings w"
  "stored_timer_state (updateBadge state w) = stored_timer_state w"
  "remote_sessions (updateBadge state w) = remote_sessions w"
  "requests (updateBadge state w) = requests w"
  by (simp_all add: updateBadge_def)

lemma saveTimerState_simps [simp]:
  "stored_settings (saveTimerState state w) = stored_settings w"
  "stored_timer_state (saveTimerState state w) = Some state"
  "remote_sessions (saveTimerState state w) = remote_sessions w"
  "requests (saveTimerState state w) = requests w"
  by (simp_all add: saveTimerState_def)

text \<open>Each handler, by the outcome of the one remote operation it performs.\<close>

lemma handleStartTimer_unconfigured:
  "stored_settings w = None \<Longrightarrow>
   handleStartTimer payload env w = (Inl (Error ''Settings not configured''), w)"
  by (auto simp add: handleStartTimer_def getSettings_def)

lemma handleStartTimer_failure:
  assumes "stored_settings w = Some settings"
    and "fst (createWorkSession settings (payload_taskId payload) (payload_taskTitle payload) env w) = Inl e"
  shows "handleStartTimer payload env w =
     (Inl e, snd (createWorkSession settings (payload_taskId payload) (payload_taskTitle payload) env w))"
  using assms by (auto simp add: handleStartTimer_def getSettings_def split_beta)

lemma handleStartTimer_success:
  assumes "stored_settings w = Some settings"
    and "fst (createWorkSession settings (payload_taskId payload) (payload_taskTitle payload) env w) = Inr sid"
  shows "fst (handleStartTimer payload env w) =
           Inr \<lparr>isRunning = True, isPaused = False, taskId = Some (payload_taskId payload),
                taskTitle = payload_taskTitle payload, currentSessionId = Some sid,
                sessionStartTime = Some (now env),
                previousTotal = payload_previousTotal payload\<rparr>"
    and "stored_timer_state (snd (handleStartTimer payload env w)) =
           Some \<lparr>isRunning = True, isPaused = False, taskId = Some (payload_taskId payload),
                taskTitle = payload_taskTitle payload, currentSessionId = Some sid,
                sessionStartTime = Some (now env),
                previousTotal = payload_previousTotal payload\<rparr>"
    and "stored_settings (snd (handleStartTimer payload env w)) = stored_settings w"
    and "remote_sessions (snd (handleStartTimer payload env w)) =
           remote_sessions (snd (createWorkSession settings (payload_taskId payload) (payload_taskTitle payload) env w))"
  using assms
  by (auto simp add: handleStartTimer_def getSettings_def Let_def createWorkSession_storage split_beta)

lemma handlePauseTimer_noop:
  "stored_settings w = None \<or> \<not> isRunning (getTimerState w)
     \<or> \<not> truthy_string (currentSessionId (getTimerState w)) \<Longrightarrow>
   handlePauseTimer env w = (Inr (getTimerState w), w)"
  by (auto simp add: handlePauseTimer_def getSettings_def Let_def split: option.splits)

lemma handlePauseTimer_failure:
  assumes "stored_settings w = Some settings" and "isRunning (getTimerState w)"
    and "currentSessionId (getTimerState w) = Some sid" and "sid \<noteq> []"
    and "patch_response env = Inl e"
  shows "handlePauseTimer env w = (Inl e, snd (endWorkSession settings sid env w))"
  using assms endWorkSession_fst[of settings sid env w]
  by (auto simp add: handlePauseTimer_def getSettings_def Let_def truthy_string_def split_beta)

lemma handlePauseTimer_success:
  assumes "stored_settings w = Some settings" and "isRunning (getTimerState w)"
    and "currentSessionId (getTimerState w) = Some sid" and "sid \<noteq> []"
    and "patch_response env = Inr u"
  shows "fst (handlePauseTimer env w) =
           Inr ((getTimerState w)\<lparr>isRunning := False, isPaused := True,
                  currentSessionId := None, sessionStartTime := None,
                  previousTotal := previousTotal (getTimerState w) +
                    (if truthy_number (sessionStartTime (getTimerState w))
                     then now env - the (sessionStartTime (getTimerState w)) else 0)\<rparr>)"
    and "stored_timer_state (snd (handlePauseTimer env w)) =
           Some ((getTimerState w)\<lparr>isRunning := False, isPaused := True,
                  currentSessionId := None, sessionStartTime := None,
                  previousTotal := previousTotal (getTimerState w) +
                    (if truthy_number (sessionStartTime (getTimerState w))
                     then now env - the (sessionStartTime (getTimerState w)) else 0)\<rparr>)"
    and "stored_settings (snd (handlePauseTimer env w)) = stored_settings w"
    and "remote_sessions (snd (handlePauseTimer env w)) =
           remote_sessions (snd (endWorkSession settings sid env w))"
  using assms endWorkSession_fst[of settings sid env w]
  by (auto simp add: handlePauseTimer_def getSettings_def Let_def truthy_string_def
        endWorkSession_storage split_beta)

lemma handleResumeTimer_noop:
  "stored_settings w = None \<or> \<not> isPaused (getTimerState w)
     \<or> \<not> truthy_string (taskId (getTimerState w)) \<Longrightarrow>
   handleResumeTimer env w = (Inr (getTimerState w), w)"
  by (auto simp add: handleResumeTimer_def getSettings_def Let_def split: option.splits)

lemma handleResumeTimer_failure:
  assumes "stored_settings w = Some settings" and "isPaused (getTimerState w)"
    and "taskId (getTimerState w) = Some task" and "task \<noteq> []"
    and "fst (createWorkSession settings task
           (if taskTitle (getTimerState w) = [] then ''Untitled'' else taskTitle (getTimerState w))
           env w) = Inl e"
  shows "handleResumeTimer env w =
     (Inl e, snd (createWorkSession settings task
           (if taskTitle (getTimerState w) = [] then ''Untitled'' else taskTitle (getTimerState w))
           env w))"
  using assms
  by (auto simp add: handleResumeTimer_def getSettings_def Let_def truthy_string_def split_beta)

lemma handleResumeTimer_success:
  assumes "stored_settings w = Some settings" and "isPaused (getTimerState w)"
    and "taskId (getTimerState w) = Some task" and "task \<noteq> []"
    and "fst (createWorkSession settings task
           (if taskTitle (getTimerState w) = [] then ''Untitled'' else taskTitle (getTimerState w))
           env w) = Inr sid"
  shows "fst (handleResumeTimer env w) =
           Inr ((getTimerState w)\<lparr>isRunning := True, isPaused := False,
                  currentSessionId := Some sid, sessionStartTime := Some (now env)\<rparr>)"
    and "stored_timer_state (snd (handleResumeTimer env w)) =
           Some ((getTimerState w)\<lparr>isRunning := True, isPaused := False,
                  currentSessionId := Some sid, sessionStartTime := Some (now env)\<rparr>)"
    and "stored_settings (snd (handleResumeTimer env w)) = stored_settings w"
    and "remote_sessions (snd (handleResumeTimer env w)) =
           remote_sessions (snd (createWorkSession settings task
           (if taskTitle (getTimerState w) = [] then ''Untitled'' else taskTitle (getTimerState w))
           env w))"
  using assms
  by (auto simp add: handleResumeTimer_def getSettings_def Let_def truthy_string_def
        createWorkSession_storage split_beta)

lemma handleStopTimer_unconfigured:
  "stored_settings w = None \<Longrightarrow>
   handleStopTimer env w =
     (Inr DEFAULT_TIMER_STATE, updateBadge DEFAULT_TIMER_STATE (saveTimerState DEFAULT_TIMER_STATE w))"
  by (auto simp add: handleStopTimer_def getSettings_def Let_def)

lemma handleStopTimer_no_session:
  assumes "stored_settings w = Some settings"
    and "\<not> (isRunning (getTimerState w) \<and> truthy_string (currentSessionId (getTimerState w)))"
  shows "handleStopTimer env w =
     (Inr DEFAULT_TIMER_STATE,
      (updateBadge DEFAULT_TIMER_STATE (saveTimerState DEFAULT_TIMER_STATE w))\<lparr>alarm := False\<rparr>)"
  using assms by (auto simp add: handleStopTimer_def getSettings_def Let_def)

lemma handleStopTimer_failure:
  assumes "stored_settings w = Some settings" and "isRunning (getTimerState w)"
    and "currentSessionId (getTimerState w) = Some sid" and "sid \<noteq> []"
    and "patch_response env = Inl e"
  shows "handleStopTimer env w = (Inl e, snd (endWorkSession settings sid env w))"
  using assms endWorkSession_fst[of settings sid env w]
  by (auto simp add: handleStopTimer_def getSettings_def Let_def truthy_string_def split_beta)

lemma handleStopTimer_success:
  assumes "stored_settings w = Some settings" and "isRunning (getTimerState w)"
    and "currentSessionId (getTimerState w) = Some sid" and "sid \<noteq> []"
    and "patch_response env = Inr u"
  shows "fst (handleStopTimer env w) = Inr DEFAULT_TIMER_STATE"
    and "stored_timer_state (snd (handleStopTimer env w)) = Some DEFAULT_TIMER_STATE"
    and "stored_settings (snd (handleStopTimer env w)) = stored_settings w"
    and "remote_sessions (snd (handleStopTimer env w)) =
           remote_sessions (snd (endWorkSession settings sid env w))"
  using assms endWorkSession_fst[of settings sid env w]
  by (auto simp add: handleStopTimer_def getSettings_def Let_def truthy_string_def
        endWorkSession_storage split_beta)

section \<open>Failure of the remote call\<close>

text \<open>Unfolding sets for evaluating the model on concrete inputs.\<close>

lemmas model_defs = handleStartTimer_def handlePauseTimer_def handleResumeTimer_def
  handleStopTimer_def handleGetState_def handleMessage_def createWorkSession_def
  endWorkSession_def getWorkSessionsDbInfo_def getExistingSessionCount_def notionRequest_def
  getSettings_def getTimerState_def saveTimerState_def updateBadge_def name_or_null_def
  truthy_string_def truthy_number_def DEFAULT_TIMER_STATE_def sendMessage_def
  open_sessions_def open_records_def close_record_def Let_def

lemmas example_defs = example_settings_def fresh_world_def sessions_db_properties_def
  ok_env_def failing_env_def task1_def running_state_def running_world_def
  start_pause_events_def start_pause_resume_events_def double_start_events_def
  paused_world_def

lemma handleMessage_unfold:
  "handleMessage (START_TIMER payload) env w =
     (case fst (handleStartTimer payload env w) of
        Inl (Error text) \<Rightarrow> ErrorResponse text | Inr s \<Rightarrow> StateResponse s,
      snd (handleStartTimer payload env w))"
  "handleMessage PAUSE_TIMER env w =
     (case fst (handlePauseTimer env w) of
        Inl (Error text) \<Rightarrow> ErrorResponse text | Inr s \<Rightarrow> StateResponse s,
      snd (handlePauseTimer env w))"
  "handleMessage RESUME_TIMER env w =
     (case fst (handleResumeTimer env w) of
        Inl (Error text) \<Rightarrow> ErrorResponse text | Inr s \<Rightarrow> StateResponse s,
      snd (handleResumeTimer env w))"
  "handleMessage STOP_TIMER env w =
     (case fst (handleStopTimer env w) of
        Inl (Error text) \<Rightarrow> ErrorResponse text | Inr s \<Rightarrow> StateResponse s,
      snd (handleStopTimer env w))"
  "handleMessage GET_STATE env w = (GetStateResponse (getTimerState w), w)"
  "handleMessage (OTHER_MESSAGE kind) env w = (ErrorResponse ''Unknown message type'', w)"
  by (auto simp add: handleMessage_def handleGetState_def split_beta
        split: sum.splits error.splits)

text \<open>
  C1. When the remote create or close operation of a transition throws, the handler throws
  the same error, the listener answers with an error object carrying its message, and the
  stored timer state is what it was before the call. The start handler creates a session
  whenever settings are stored; pause and stop close the session named by a non-empty
  \<open>currentSessionId\<close> of a running state; resume creates one for the non-empty
  \<open>taskId\<close> of a paused state.
\<close>

theorem remote_failure_leaves_state:
  assumes "stored_settings w = Some settings"
  shows "(fst (createWorkSession settings (payload_taskId payload) (payload_taskTitle payload)
                 env w) = Inl (Error text) \<longrightarrow>
            fst (handleStartTimer payload env w) = Inl (Error text)
          \<and> fst (handleMessage (START_TIMER payload) env w) = ErrorResponse text
          \<and> stored_timer_state (snd (handleMessage (START_TIMER payload) env w))
              = stored_timer_state w)
       \<and> (isRunning (getTimerState w) \<and> currentSessionId (getTimerState w) = Some sid
            \<and> sid \<noteq> [] \<and> fst (endWorkSession settings sid env w) = Inl (Error text) \<longrightarrow>
            fst (handlePauseTimer env w) = Inl (Error text)
          \<and> fst (handleMessage PAUSE_TIMER env w) = ErrorResponse text
          \<and> stored_timer_state (snd (handleMessage PAUSE_TIMER env w)) = stored_timer_state w
          \<and> fst (handleStopTimer env w) = Inl (Error text)
          \<and> fst (handleMessage STOP_TIMER env w) = ErrorResponse text
          \<and> stored_timer_state (snd (handleMessage STOP_TIMER env w)) = stored_timer_state w)
       \<and> (isPaused (getTimerState w) \<and> taskId (getTimerState w) = Some task \<and> task \<noteq> []
            \<and> fst (createWorkSession settings task
                     (if taskTitle (getTimerState w) = [] then ''Untitled''
                      else taskTitle (getTimerState w)) env w) = Inl (Error text) \<longrightarrow>
            fst (handleResumeTimer env w) = Inl (Error text)
          \<and> fst (handleMessage RESUME_TIMER env w) = ErrorResponse text
          \<and> stored_timer_state (snd (handleMessage RESUME_TIMER env w)) = stored_timer_state w)"
proof (intro conjI impI)
  assume f: "fst (createWorkSession settings (payload_taskId payload) (payload_taskTitle payload)
                 env w) = Inl (Error text)"
  note h = handleStartTimer_failure[OF assms f]
  show "fst (handleStartTimer payload env w) = Inl (Error text)" by (simp add: h)
  show "fst (handleMessage (START_TIMER payload) env w) = ErrorResponse text"
    by (simp add: handleMessage_unfold h)
  show "stored_timer_state (snd (handleMessage (START_TIMER payload) env w)) = stored_timer_state w"
    by (simp add: handleMessage_unfold h createWorkSession_storage)
next
  assume a: "isRunning (getTimerState w) \<and> currentSessionId (getTimerState w) = Some sid
            \<and> sid \<noteq> [] \<and> fst (endWorkSession settings sid env w) = Inl (Error text)"
  then have p: "patch_response env = Inl (Error text)" by (simp add: endWorkSession_fst)
  from a have hp: "handlePauseTimer env w = (Inl (Error text), snd (endWorkSession settings sid env w))"
    by (intro handlePauseTimer_failure[OF assms _ _ _ p]) simp_all
  from a have hs: "handleStopTimer env w = (Inl (Error text), snd (endWorkSession settings sid env w))"
    by (intro handleStopTimer_failure[OF assms _ _ _ p]) simp_all
  show "fst (handlePauseTimer env w) = Inl (Error text)" by (simp add: hp)
  show "fst (handleMessage PAUSE_TIMER env w) = ErrorResponse text"
    by (simp add: handleMessage_unfold hp)
  show "stored_timer_state (snd (handleMessage PAUSE_TIMER env w)) = stored_timer_state w"
    by (simp add: handleMessage_unfold hp endWorkSession_storage)
  show "fst (handleStopTimer env w) = Inl (Error text)" by (simp add: hs)
  show "fst (handleMessage STOP_TIMER env w) = ErrorResponse text"
    by (simp add: handleMessage_unfold hs)
  show "stored_timer_state (snd (handleMessage STOP_TIMER env w)) = stored_timer_state w"
    by (simp add: handleMessage_unfold hs endWorkSession_storage)
next
  assume a: "isPaused (getTimerState w) \<and> taskId (getTimerState w) = Some task \<and> task \<noteq> []
            \<and> fst (createWorkSession settings task
                     (if taskTitle (getTimerState w) = [] then ''Untitled''
                      else taskTitle (getTimerState w)) env w) = Inl (Error text)"
  then have hr: "handleResumeTimer env w = (Inl (Error text),
       snd (createWorkSession settings task
                     (if taskTitle (getTimerState w) = [] then ''Untitled''
                      else taskTitle (getTimerState w)) env w))"
    by (intro handleResumeTimer_failure[OF assms]) simp_all
  show "fst (handleResumeTimer env w) = Inl (Error text)" by (simp add: hr)
  show "fst (handleMessage RESUME_TIMER env w) = ErrorResponse text"
    by (simp add: handleMessage_unfold hr)
  show "stored_timer_state (snd (handleMessage RESUME_TIMER env w)) = stored_timer_state w"
    by (simp only: handleMessage_unfold hr snd_conv createWorkSession_storage)
qed

theorem remote_failure_leaves_state_witness:
  "stored_settings (fresh_world (Some example_settings)) = Some example_settings
   \<and> fst (createWorkSession example_settings (payload_taskId task1) (payload_taskTitle task1)
            (failing_env 5) (fresh_world (Some example_settings)))
       = Inl (Error ''Notion API error: 500'')
   \<and> fst (handleMessage (START_TIMER task1) (failing_env 5) (fresh_world (Some example_settings)))
       = ErrorResponse ''Notion API error: 500''
   \<and> stored_timer_state (snd (handleMessage (START_TIMER task1) (failing_env 5)
         (fresh_world (Some example_settings)))) = None
   \<and> isRunning (getTimerState (running_world (Some example_settings) 2000))
   \<and> currentSessionId (getTimerState (running_world (Some example_settings) 2000)) = Some ''s1''
   \<and> fst (endWorkSession example_settings ''s1'' (failing_env 5000)
            (running_world (Some example_settings) 2000)) = Inl (Error ''Notion API error: 500'')
   \<and> fst (handleMessage PAUSE_TIMER (failing_env 5000) (running_world (Some example_settings) 2000))
       = ErrorResponse ''Notion API error: 500''
   \<and> stored_timer_state (snd (handleMessage STOP_TIMER (failing_env 5000)
         (running_world (Some example_settings) 2000))) = Some (running_state 2000)
   \<and> isPaused (getTimerState paused_world)
   \<and> taskId (getTimerState paused_world) = Some ''T1''
   \<and> fst (handleMessage RESUME_TIMER (failing_env 7000) paused_world)
       = ErrorResponse ''Notion API error: 500''
   \<and> stored_timer_state (snd (handleMessage RESUME_TIMER (failing_env 7000) paused_world))
       = stored_timer_state paused_world"
proof -
  have s3: "stored_settings paused_world = Some example_settings"
    by (simp add: model_defs example_defs)
  have p: "isPaused (getTimerState paused_world)"
    "taskId (getTimerState paused_world) = Some ''T1''" "''T1'' \<noteq> []"
    by (simp_all add: model_defs example_defs)
  have pc: "fst (createWorkSession example_settings ''T1''
              (if taskTitle (getTimerState paused_world) = [] then ''Untitled''
               else taskTitle (getTimerState paused_world)) (failing_env 7000) paused_world)
       = Inl (Error ''Notion API error: 500'')"
    by (simp add: model_defs example_defs)
  have resume: "fst (handleMessage RESUME_TIMER (failing_env 7000) paused_world)
       = ErrorResponse ''Notion API error: 500''
     \<and> stored_timer_state (snd (handleMessage RESUME_TIMER (failing_env 7000) paused_world))
       = stored_timer_state paused_world"
    using remote_failure_leaves_state[OF s3, of _ "failing_env 7000" _ _ "''T1''"] p pc
    by blast
  have s1: "stored_settings (fresh_world (Some example_settings)) = Some example_settings"
    by (simp add: fresh_world_def)
  have s2: "stored_settings (running_world (Some example_settings) 2000) = Some example_settings"
    by (simp add: running_world_def)
  have c: "fst (createWorkSession example_settings (payload_taskId task1) (payload_taskTitle task1)
            (failing_env 5) (fresh_world (Some example_settings)))
       = Inl (Error ''Notion API error: 500'')"
    by (simp add: model_defs example_defs)
  have r: "isRunning (getTimerState (running_world (Some example_settings) 2000))"
    "currentSessionId (getTimerState (running_world (Some example_settings) 2000)) = Some ''s1''"
    "stored_timer_state (running_world (Some example_settings) 2000) = Some (running_state 2000)"
    "stored_timer_state (fresh_world (Some example_settings)) = None"
    by (simp_all add: getTimerState_def example_defs)
  have e: "fst (endWorkSession example_settings ''s1'' (failing_env 5000)
            (running_world (Some example_settings) 2000)) = Inl (Error ''Notion API error: 500'')"
    by (simp add: endWorkSession_fst failing_env_def)
  from remote_failure_leaves_state[OF s1, of task1 "failing_env 5" "''Notion API error: 500''"]
    remote_failure_leaves_state[OF s2, of _ "failing_env 5000" "''Notion API error: 500''" "''s1''"]
    s1 c r e p resume
  show ?thesis by simp
qed

section \<open>No-op transitions\<close>

text \<open>
  C8. Pausing while the stored state is not running returns that state and changes nothing:
  no request is sent, nothing is written, and the answer is a state, not an error.
\<close>

theorem pause_when_not_running_is_noop:
  assumes "\<not> isRunning (getTimerState w)"
  shows "handlePauseTimer env w = (Inr (getTimerState w), w)
       \<and> handleMessage PAUSE_TIMER env w = (StateResponse (getTimerState w), w)"
  using assms by (simp add: handleMessage_unfold handlePauseTimer_noop)

theorem pause_when_not_running_is_noop_witness:
  "\<not> isRunning (getTimerState (fresh_world (Some example_settings)))
   \<and> handlePauseTimer (ok_env 5000 []) (fresh_world (Some example_settings))
       = (Inr DEFAULT_TIMER_STATE, fresh_world (Some example_settings))
   \<and> requests (snd (handleMessage PAUSE_TIMER (ok_env 5000 []) (fresh_world (Some example_settings)))) = []"
proof -
  have a: "\<not> isRunning (getTimerState (fresh_world (Some example_settings)))"
    by (simp add: model_defs example_defs)
  have b: "getTimerState (fresh_world (Some example_settings)) = DEFAULT_TIMER_STATE"
    by (simp add: getTimerState_def fresh_world_def)
  have c: "requests (fresh_world (Some example_settings)) = []"
    by (simp add: fresh_world_def)
  from pause_when_not_running_is_noop[OF a, of "ok_env 5000 []"] a b c show ?thesis by simp
qed

text \<open>
  C7. Stopping when the stored state is the empty default answers with the default state,
  leaves the timer state read from storage as it was and sends no request. After any
  successful stop a further stop gives the same answer, leaves the stored state as it is and
  sends no request, whatever the remote side would have answered.
\<close>

theorem stop_when_idle_is_noop:
  "(getTimerState w = DEFAULT_TIMER_STATE \<longrightarrow>
       fst (handleStopTimer env w) = Inr DEFAULT_TIMER_STATE
     \<and> getTimerState (snd (handleStopTimer env w)) = getTimerState w
     \<and> requests (snd (handleStopTimer env w)) = requests w
     \<and> remote_sessions (snd (handleStopTimer env w)) = remote_sessions w)
   \<and> (fst (handleStopTimer env w) = Inr s \<longrightarrow>
       fst (handleStopTimer env' (snd (handleStopTimer env w))) = Inr s
     \<and> stored_timer_state (snd (handleStopTimer env' (snd (handleStopTimer env w))))
         = stored_timer_state (snd (handleStopTimer env w))
     \<and> requests (snd (handleStopTimer env' (snd (handleStopTimer env w))))
         = requests (snd (handleStopTimer env w))
     \<and> remote_sessions (snd (handleStopTimer env' (snd (handleStopTimer env w))))
         = remote_sessions (snd (handleStopTimer env w)))"
proof -
  have idle: "fst (handleStopTimer e v) = Inr DEFAULT_TIMER_STATE
     \<and> stored_timer_state (snd (handleStopTimer e v)) = Some DEFAULT_TIMER_STATE
     \<and> requests (snd (handleStopTimer e v)) = requests v
     \<and> remote_sessions (snd (handleStopTimer e v)) = remote_sessions v"
    if "getTimerState v = DEFAULT_TIMER_STATE" for e v
  proof (cases "stored_settings v")
    case None
    then show ?thesis by (simp add: handleStopTimer_unconfigured)
  next
    case (Some settings)
    have "\<not> (isRunning (getTimerState v) \<and> truthy_string (currentSessionId (getTimerState v)))"
      using that by (simp add: DEFAULT_TIMER_STATE_def)
    then show ?thesis by (simp add: handleStopTimer_no_session[OF Some])
  qed
  have after: "getTimerState (snd (handleStopTimer env w)) = DEFAULT_TIMER_STATE
      \<and> stored_timer_state (snd (handleStopTimer env w)) = Some DEFAULT_TIMER_STATE
      \<and> s = DEFAULT_TIMER_STATE"
    if ok: "fst (handleStopTimer env w) = Inr s"
  proof (cases "stored_settings w")
    case None
    with ok show ?thesis by (simp add: handleStopTimer_unconfigured getTimerState_def)
  next
    case (Some settings)
    show ?thesis
    proof (cases "isRunning (getTimerState w) \<and> truthy_string (currentSessionId (getTimerState w))")
      case False
      with ok show ?thesis by (simp add: handleStopTimer_no_session[OF Some] getTimerState_def)
    next
      case True
      then obtain sid where sid: "currentSessionId (getTimerState w) = Some sid" "sid \<noteq> []"
        by (auto simp add: truthy_string_def split: option.splits)
      show ?thesis
      proof (cases "patch_response env")
        case (Inl e)
        with ok True sid Some show ?thesis by (simp add: handleStopTimer_failure)
      next
        case (Inr u)
        from handleStopTimer_success[OF Some _ sid Inr] True ok show ?thesis
          by (simp add: getTimerState_def)
      qed
    qed
  qed
  show ?thesis
  proof (intro conjI impI)
    assume d: "getTimerState w = DEFAULT_TIMER_STATE"
    from idle[OF d, of env] d
    show "fst (handleStopTimer env w) = Inr DEFAULT_TIMER_STATE"
      "getTimerState (snd (handleStopTimer env w)) = getTimerState w"
      "requests (snd (handleStopTimer env w)) = requests w"
      "remote_sessions (snd (handleStopTimer env w)) = remote_sessions w"
      by (simp_all add: getTimerState_def)
  next
    assume ok: "fst (handleStopTimer env w) = Inr s"
    from after[OF ok] idle[of "snd (handleStopTimer env w)" env']
    show "fst (handleStopTimer env' (snd (handleStopTimer env w))) = Inr s"
      "stored_timer_state (snd (handleStopTimer env' (snd (handleStopTimer env w))))
         = stored_timer_state (snd (handleStopTimer env w))"
      "requests (snd (handleStopTimer env' (snd (handleStopTimer env w))))
         = requests (snd (handleStopTimer env w))"
      "remote_sessions (snd (handleStopTimer env' (snd (handleStopTimer env w))))
         = remote_sessions (snd (handleStopTimer env w))"
      by simp_all
  qed
qed

theorem stop_when_idle_is_noop_witness:
  "getTimerState (fresh_world (Some example_settings)) = DEFAULT_TIMER_STATE
   \<and> fst (handleStopTimer (ok_env 7 []) (fresh_world (Some example_settings))) = Inr DEFAULT_TIMER_STATE
   \<and> requests (snd (handleStopTimer (ok_env 7 []) (fresh_world (Some example_settings)))) = []
   \<and> fst (handleStopTimer (ok_env 9000 []) (running_world (Some example_settings) 2000))
       = Inr DEFAULT_TIMER_STATE
   \<and> requests (snd (handleStopTimer (failing_env 9500)
        (snd (handleStopTimer (ok_env 9000 []) (running_world (Some example_settings) 2000)))))
       = [(PATCH, ''/pages/s1'')]"
proof -
  have a: "getTimerState (fresh_world (Some example_settings)) = DEFAULT_TIMER_STATE"
    by (simp add: getTimerState_def fresh_world_def)
  have b: "requests (fresh_world (Some example_settings)) = []"
    by (simp add: fresh_world_def)
  have c: "fst (handleStopTimer (ok_env 9000 []) (running_world (Some example_settings) 2000))
       = Inr DEFAULT_TIMER_STATE"
    by (simp add: model_defs example_defs)
  have d: "requests (snd (handleStopTimer (ok_env 9000 []) (running_world (Some example_settings) 2000)))
       = [(PATCH, ''/pages/s1'')]"
    by (simp add: model_defs example_defs)
  from stop_when_idle_is_noop[of "fresh_world (Some example_settings)" "ok_env 7 []"]
    stop_when_idle_is_noop[of "running_world (Some example_settings) 2000" "ok_env 9000 []"
      DEFAULT_TIMER_STATE "failing_env 9500"]
    a b c d
  show ?thesis by simp
qed

section \<open>Pause, missing settings and the client proxy\<close>




text \<open>
  C3, as stated, fails: with no settings stored, stop answers with a state (no error) and
  overwrites the stored timer state; and with settings stored whose credential and database
  ids are empty, start still sends its requests to the remote API.
\<close>

theorem missing_settings_counterexample:
  "stored_settings (running_world None 2000) = None
   \<and> fst (handleMessage STOP_TIMER (ok_env 5000 []) (running_world None 2000))
       = StateResponse DEFAULT_TIMER_STATE
   \<and> stored_timer_state (running_world None 2000) = Some (running_state 2000)
   \<and> stored_timer_state (snd (handleMessage STOP_TIMER (ok_env 5000 []) (running_world None 2000)))
       = Some DEFAULT_TIMER_STATE
   \<and> running_state 2000 \<noteq> DEFAULT_TIMER_STATE
   \<and> fst (handleMessage PAUSE_TIMER (ok_env 5000 []) (running_world None 2000))
       = StateResponse (running_state 2000)
   \<and> apiKey (example_settings\<lparr>apiKey := [], tasksDataSourceId := [],
              workSessionsDataSourceId := []\<rparr>) = []
   \<and> requests (snd (handleMessage (START_TIMER task1) (ok_env 0 ''s1'')
        (fresh_world (Some (example_settings\<lparr>apiKey := [], tasksDataSourceId := [],
              workSessionsDataSourceId := []\<rparr>)))))
       = [(GET, ''/databases/'')]"
  by (simp add: model_defs example_defs)

text \<open>
  C3, amended. Only the absence of the whole settings bundle is checked, and each operation
  reacts in its own way. With no settings stored: start throws \<open>Settings not configured\<close>
  and changes nothing; pause and resume return the current state and change nothing, without
  an error; stop sends no request, returns the default state without an error and
  overwrites the stored timer state with the default.
\<close>

theorem missing_settings:
  assumes "stored_settings w = None"
  shows "handleStartTimer payload env w = (Inl (Error ''Settings not configured''), w)
       \<and> handleMessage (START_TIMER payload) env w = (ErrorResponse ''Settings not configured'', w)
       \<and> handlePauseTimer env w = (Inr (getTimerState w), w)
       \<and> handleResumeTimer env w = (Inr (getTimerState w), w)
       \<and> fst (handleStopTimer env w) = Inr DEFAULT_TIMER_STATE
       \<and> stored_timer_state (snd (handleStopTimer env w)) = Some DEFAULT_TIMER_STATE
       \<and> requests (snd (handleStopTimer env w)) = requests w
       \<and> remote_sessions (snd (handleStopTimer env w)) = remote_sessions w"
  using assms
  by (simp add: handleStartTimer_unconfigured handlePauseTimer_noop handleResumeTimer_noop
        handleStopTimer_unconfigured handleMessage_unfold)

theorem missing_settings_witness:
  "stored_settings (running_world None 2000) = None
   \<and> handleStartTimer task1 (ok_env 0 ''s2'') (running_world None 2000)
       = (Inl (Error ''Settings not configured''), running_world None 2000)
   \<and> handlePauseTimer (ok_env 0 []) (running_world None 2000)
       = (Inr (running_state 2000), running_world None 2000)
   \<and> stored_timer_state (snd (handleStopTimer (ok_env 0 []) (running_world None 2000)))
       = Some DEFAULT_TIMER_STATE"
proof -
  have a: "stored_settings (running_world None 2000) = None"
    "getTimerState (running_world None 2000) = running_state 2000"
    by (simp_all add: running_world_def getTimerState_def)
  from missing_settings[OF a(1), of task1 "ok_env 0 ''s2''"]
    missing_settings[OF a(1), of _ "ok_env 0 []"] a
  show ?thesis by simp
qed




section \<open>Invariants over sequences of requests\<close>

text \<open>What one handled message does to the storage and to the remote session records.\<close>

lemma handleStartTimer_outcome:
  "stored_settings (snd (handleStartTimer payload env w)) = stored_settings w
   \<and> ((stored_timer_state (snd (handleStartTimer payload env w)) = stored_timer_state w
        \<and> remote_sessions (snd (handleStartTimer payload env w)) = remote_sessions w)
      \<or> (\<exists>sid n. stored_settings w \<noteq> None \<and> create_response env = Inr sid
           \<and> stored_timer_state (snd (handleStartTimer payload env w)) =
               Some \<lparr>isRunning = True, isPaused = False, taskId = Some (payload_taskId payload),
                     taskTitle = payload_taskTitle payload, currentSessionId = Some sid,
                     sessionStartTime = Some (now env),
                     previousTotal = payload_previousTotal payload\<rparr>
           \<and> remote_sessions (snd (handleStartTimer payload env w)) =
               remote_sessions w @ [\<lparr>session_id = sid, session_task = payload_taskId payload,
                                     session_number = n, session_ended = False\<rparr>]))"
proof (cases "stored_settings w")
  case None
  then show ?thesis by (simp add: handleStartTimer_unconfigured)
next
  case (Some settings)
  let ?c = "createWorkSession settings (payload_taskId payload) (payload_taskTitle payload) env w"
  show ?thesis
  proof (cases "fst ?c")
    case (Inl e)
    from handleStartTimer_failure[OF Some Inl] createWorkSession_Inl[OF Inl]
    show ?thesis by (simp add: createWorkSession_storage)
  next
    case (Inr sid)
    from createWorkSession_Inr[OF Inr] obtain n where
      c: "create_response env = Inr sid"
      and r: "remote_sessions (snd ?c) = remote_sessions w @
          [\<lparr>session_id = sid, session_task = payload_taskId payload,
            session_number = n, session_ended = False\<rparr>]"
      by blast
    from handleStartTimer_success(2,3,4)[OF Some Inr] c r Some
    show ?thesis by auto
  qed
qed

lemma handlePauseTimer_outcome:
  "stored_settings (snd (handlePauseTimer env w)) = stored_settings w
   \<and> ((stored_timer_state (snd (handlePauseTimer env w)) = stored_timer_state w
        \<and> remote_sessions (snd (handlePauseTimer env w)) = remote_sessions w)
      \<or> (\<exists>sid. isRunning (getTimerState w) \<and> currentSessionId (getTimerState w) = Some sid
           \<and> stored_timer_state (snd (handlePauseTimer env w)) =
               Some ((getTimerState w)\<lparr>isRunning := False, isPaused := True,
                  currentSessionId := None, sessionStartTime := None,
                  previousTotal := previousTotal (getTimerState w) +
                    (if truthy_number (sessionStartTime (getTimerState w))
                     then now env - the (sessionStartTime (getTimerState w)) else 0)\<rparr>)
           \<and> remote_sessions (snd (handlePauseTimer env w)) =
               map (close_record sid) (remote_sessions w)))"
proof (cases "stored_settings w = None \<or> \<not> isRunning (getTimerState w)
                \<or> \<not> truthy_string (currentSessionId (getTimerState w))")
  case True
  then show ?thesis by (simp add: handlePauseTimer_noop)
next
  case False
  then obtain st sid where st: "stored_settings w = Some st"
    and r: "isRunning (getTimerState w)"
    and c: "currentSessionId (getTimerState w) = Some sid" "sid \<noteq> []"
    by (auto simp add: truthy_string_def split: option.splits)
  show ?thesis
  proof (cases "patch_response env")
    case (Inl e)
    from handlePauseTimer_failure[OF st r c Inl] endWorkSession_Inl[OF Inl]
    show ?thesis by (simp add: endWorkSession_storage)
  next
    case (Inr u)
    from handlePauseTimer_success(2,3,4)[OF st r c Inr] endWorkSession_Inr[OF Inr] r c
    show ?thesis by auto
  qed
qed

lemma handleResumeTimer_outcome:
  "stored_settings (snd (handleResumeTimer env w)) = stored_settings w
   \<and> ((stored_timer_state (snd (handleResumeTimer env w)) = stored_timer_state w
        \<and> remote_sessions (snd (handleResumeTimer env w)) = remote_sessions w)
      \<or> (\<exists>task sid n. stored_settings w \<noteq> None \<and> isPaused (getTimerState w)
           \<and> taskId (getTimerState w) = Some task \<and> create_response env = Inr sid
           \<and> stored_timer_state (snd (handleResumeTimer env w)) =
               Some ((getTimerState w)\<lparr>isRunning := True, isPaused := False,
                  currentSessionId := Some sid, sessionStartTime := Some (now env)\<rparr>)
           \<and> remote_sessions (snd (handleResumeTimer env w)) =
               remote_sessions w @ [\<lparr>session_id = sid, session_task = task,
                                     session_number = n, session_ended = False\<rparr>]))"
proof (cases "stored_settings w = None \<or> \<not> isPaused (getTimerState w)
                \<or> \<not> truthy_string (taskId (getTimerState w))")
  case True
  then show ?thesis by (simp add: handleResumeTimer_noop)
next
  case False
  then obtain st task where st: "stored_settings w = Some st"
    and p: "isPaused (getTimerState w)"
    and t: "taskId (getTimerState w) = Some task" "task \<noteq> []"
    by (auto simp add: truthy_string_def split: option.splits)
  let ?c = "createWorkSession st task
           (if taskTitle (getTimerState w) = [] then ''Untitled'' else taskTitle (getTimerState w))
           env w"
  show ?thesis
  proof (cases "fst ?c")
    case (Inl e)
    from handleResumeTimer_failure[OF st p t Inl] createWorkSession_Inl[OF Inl]
    show ?thesis by (simp add: createWorkSession_storage)
  next
    case (Inr sid)
    from createWorkSession_Inr[OF Inr] obtain n where
      c: "create_response env = Inr sid"
      and r: "remote_sessions (snd ?c) = remote_sessions w @
          [\<lparr>session_id = sid, session_task = task,
            session_number = n, session_ended = False\<rparr>]"
      by blast
    from handleResumeTimer_success(2,3,4)[OF st p t Inr] c r st p t
    show ?thesis by auto
  qed
qed

lemma handleStopTimer_outcome:
  "stored_settings (snd (handleStopTimer env w)) = stored_settings w
   \<and> ((stored_timer_state (snd (handleStopTimer env w)) = stored_timer_state w
        \<and> remote_sessions (snd (handleStopTimer env w)) = remote_sessions w)
      \<or> (stored_timer_state (snd (handleStopTimer env w)) = Some DEFAULT_TIMER_STATE
          \<and> (stored_settings w = None \<or> \<not> isRunning (getTimerState w)
               \<or> \<not> truthy_string (currentSessionId (getTimerState w)))
          \<and> remote_sessions (snd (handleStopTimer env w)) = remote_sessions w)
      \<or> (\<exists>sid. stored_timer_state (snd (handleStopTimer env w)) = Some DEFAULT_TIMER_STATE
          \<and> currentSessionId (getTimerState w) = Some sid
          \<and> remote_sessions (snd (handleStopTimer env w)) =
               map (close_record sid) (remote_sessions w)))"
proof (cases "stored_settings w")
  case None
  then show ?thesis by (simp add: handleStopTimer_unconfigured)
next
  case (Some st)
  show ?thesis
  proof (cases "isRunning (getTimerState w) \<and> truthy_string (currentSessionId (getTimerState w))")
    case False
    from handleStopTimer_no_session[OF Some False] False Some show ?thesis by auto
  next
    case True
    then obtain sid where r: "isRunning (getTimerState w)"
      and c: "currentSessionId (getTimerState w) = Some sid" "sid \<noteq> []"
      by (auto simp add: truthy_string_def split: option.splits)
    show ?thesis
    proof (cases "patch_response env")
      case (Inl e)
      from handleStopTimer_failure[OF Some r c Inl] endWorkSession_Inl[OF Inl]
      show ?thesis by (simp add: endWorkSession_storage)
    next
      case (Inr u)
      from handleStopTimer_success(2,3,4)[OF Some r c Inr] endWorkSession_Inr[OF Inr] c
      show ?thesis by auto
    qed
  qed
qed

lemma state_wf_unchanged:
  "stored_timer_state w1 = stored_timer_state w \<Longrightarrow> state_wf (getTimerState w) \<Longrightarrow>
   state_wf (getTimerState w1)"
  by (simp add: getTimerState_def)

lemma state_wf_default: "state_wf DEFAULT_TIMER_STATE"
  by (simp add: state_wf_def DEFAULT_TIMER_STATE_def)

lemma state_wf_step:
  assumes "state_wf (getTimerState w)"
  shows "state_wf (getTimerState (snd (handleMessage msg env w)))"
proof (cases msg)
  case (START_TIMER payload)
  from handleStartTimer_outcome[of payload env w] assms show ?thesis
    unfolding START_TIMER handleMessage_unfold snd_conv
    by (elim conjE disjE exE) (auto simp add: getTimerState_def state_wf_def)
next
  case PAUSE_TIMER
  from handlePauseTimer_outcome[of env w] assms show ?thesis
    unfolding PAUSE_TIMER handleMessage_unfold snd_conv
    by (elim conjE disjE exE) (auto simp add: getTimerState_def state_wf_def)
next
  case RESUME_TIMER
  from handleResumeTimer_outcome[of env w] assms show ?thesis
    unfolding RESUME_TIMER handleMessage_unfold snd_conv
    by (elim conjE disjE exE) (auto simp add: getTimerState_def state_wf_def)
next
  case STOP_TIMER
  from handleStopTimer_outcome[of env w] assms show ?thesis
    unfolding STOP_TIMER handleMessage_unfold snd_conv
    by (elim conjE disjE exE)
       (auto simp add: getTimerState_def state_wf_def DEFAULT_TIMER_STATE_def)
next
  case GET_STATE
  with assms show ?thesis by (simp add: handleMessage_unfold)
next
  case (OTHER_MESSAGE kind)
  with assms show ?thesis by (simp add: handleMessage_unfold)
qed

lemma state_wf_run:
  "state_wf (getTimerState w) \<Longrightarrow> state_wf (getTimerState (run w events))"
proof (induction events arbitrary: w)
  case Nil
  then show ?case by simp
next
  case (Cons ev events)
  obtain msg env where ev: "ev = (msg, env)" by (cases ev)
  from Cons.prems have "state_wf (getTimerState (snd (handleMessage msg env w)))"
    by (rule state_wf_step)
  then show ?case unfolding ev run.simps by (rule Cons.IH)
qed

text \<open>
  C2. In every timer state read from storage after any sequence of start, pause, resume,
  stop and get-state requests (and unknown ones), beginning with the default state:
  \<open>currentSessionId\<close> and \<open>sessionStartTime\<close> are both present or both absent; both are
  absent whenever \<open>isRunning\<close> is false; and \<open>taskId\<close> is absent exactly when neither
  \<open>isRunning\<close> nor \<open>isPaused\<close> holds.
\<close>

theorem reachable_state_shape:
  assumes "getTimerState w0 = DEFAULT_TIMER_STATE"
    and "state = getTimerState (run w0 events)"
  shows "(currentSessionId state = None \<longleftrightarrow> sessionStartTime state = None)
       \<and> (\<not> isRunning state \<longrightarrow> currentSessionId state = None \<and> sessionStartTime state = None)
       \<and> (taskId state = None \<longleftrightarrow> \<not> isRunning state \<and> \<not> isPaused state)"
proof -
  have "state_wf (getTimerState w0)"
    by (simp only: assms(1) state_wf_default)
  then have "state_wf state"
    unfolding assms(2) by (rule state_wf_run)
  then show ?thesis
    by (auto simp add: state_wf_def split: if_splits)
qed

theorem reachable_state_shape_witness:
  "getTimerState (fresh_world (Some example_settings)) = DEFAULT_TIMER_STATE
   \<and> getTimerState (run (fresh_world (Some example_settings)) start_pause_events)
       = \<lparr>isRunning = False, isPaused = True, taskId = Some ''T1'', taskTitle = ''Write report'',
          currentSessionId = None, sessionStartTime = None, previousTotal = 5000\<rparr>
   \<and> (taskId (getTimerState (run (fresh_world (Some example_settings)) start_pause_events)) = None
        \<longleftrightarrow> \<not> isRunning (getTimerState (run (fresh_world (Some example_settings)) start_pause_events))
          \<and> \<not> isPaused (getTimerState (run (fresh_world (Some example_settings)) start_pause_events)))"
proof -
  have a: "getTimerState (fresh_world (Some example_settings)) = DEFAULT_TIMER_STATE"
    by (simp add: getTimerState_def fresh_world_def)
  have b: "getTimerState (run (fresh_world (Some example_settings)) start_pause_events)
       = \<lparr>isRunning = False, isPaused = True, taskId = Some ''T1'', taskTitle = ''Write report'',
          currentSessionId = None, sessionStartTime = None, previousTotal = 5000\<rparr>"
    by (simp add: model_defs example_defs)
  from reachable_state_shape[OF a refl, of start_pause_events] a b
  show ?thesis by blast
qed

text \<open>
  C9, as stated, fails: after start and pause the phase is paused and the task is still
  present, while the session id and the session start time are absent.
\<close>

theorem idle_invariant_counterexample:
  "phase_of (getTimerState (run (fresh_world (Some example_settings)) start_pause_events)) = paused
   \<and> taskId (getTimerState (run (fresh_world (Some example_settings)) start_pause_events))
       = Some ''T1''
   \<and> currentSessionId (getTimerState (run (fresh_world (Some example_settings)) start_pause_events))
       = None
   \<and> sessionStartTime (getTimerState (run (fresh_world (Some example_settings)) start_pause_events))
       = None
   \<and> \<not> ((taskId (getTimerState (run (fresh_world (Some example_settings)) start_pause_events))
            = None)
        = (currentSessionId (getTimerState (run (fresh_world (Some example_settings))
            start_pause_events)) = None))"
  by (simp add: model_defs example_defs phase_of_def)

text \<open>
  C9, amended. For every state reachable from the default state: the phase is idle exactly
  when \<open>taskId\<close> is absent; \<open>currentSessionId\<close> is absent exactly when
  \<open>sessionStartTime\<close> is absent, and exactly when the phase is not running; so in the idle
  phase all three are absent, and in the paused phase the task is present while the session
  id and start time are absent.
\<close>

theorem idle_invariant:
  assumes "getTimerState w0 = DEFAULT_TIMER_STATE"
    and "state = getTimerState (run w0 events)"
  shows "(phase_of state = idle \<longleftrightarrow> taskId state = None)
       \<and> (currentSessionId state = None \<longleftrightarrow> sessionStartTime state = None)
       \<and> (currentSessionId state = None \<longleftrightarrow> phase_of state \<noteq> running)
       \<and> (phase_of state = idle \<longrightarrow>
            taskId state = None \<and> currentSessionId state = None \<and> sessionStartTime state = None)
       \<and> (phase_of state = paused \<longrightarrow>
            taskId state \<noteq> None \<and> currentSessionId state = None \<and> sessionStartTime state = None)"
proof -
  have "state_wf (getTimerState w0)"
    by (simp only: assms(1) state_wf_default)
  then have "state_wf state"
    unfolding assms(2) by (rule state_wf_run)
  then show ?thesis
    by (auto simp add: state_wf_def phase_of_def split: if_splits)
qed

theorem idle_invariant_witness:
  "getTimerState (fresh_world (Some example_settings)) = DEFAULT_TIMER_STATE
   \<and> phase_of (getTimerState (run (fresh_world (Some example_settings)) start_pause_resume_events))
       = running
   \<and> currentSessionId (getTimerState (run (fresh_world (Some example_settings))
        start_pause_resume_events)) = Some ''s2''
   \<and> sessionStartTime (getTimerState (run (fresh_world (Some example_settings))
        start_pause_resume_events)) \<noteq> None
   \<and> taskId (getTimerState (run (fresh_world (Some example_settings))
        start_pause_resume_events)) \<noteq> None"
proof -
  have a: "getTimerState (fresh_world (Some example_settings)) = DEFAULT_TIMER_STATE"
    by (simp add: getTimerState_def fresh_world_def)
  have b: "currentSessionId (getTimerState (run (fresh_world (Some example_settings))
        start_pause_resume_events)) = Some ''s2''"
    by (simp add: model_defs example_defs)
  from idle_invariant[OF a refl, of start_pause_resume_events] a b
  show ?thesis by (cases "phase_of (getTimerState (run (fresh_world (Some example_settings))
        start_pause_resume_events))") auto
qed

section \<open>Open session records\<close>












end
